theory Spec2Isabelle
  imports Complex_Main "HOL-Library.Multiset"
begin

section \<open>The price source adapter (package services)\<close>

subsection \<open>What the Go runtime and standard library supply\<close>

text \<open>
  A response body, once \<open>encoding/json\<close> has scanned it, is a JSON document. Objects
  keep their members in document order, duplicates included, because the decoder visits
  them one after the other. A number keeps its literal.
\<close>

datatype json =
    JNull
  | JBool bool
  | JNumber string
  | JString string
  | JArray "json list"
  | JObject "(string \<times> json) list"

text \<open>
  A Go \<open>map[string]V\<close> is a list of entries with distinct keys; \<open>nil\<close> is \<open>None\<close> of
  the option type around it. \<open>mapassign k v m\<close> is the statement \<open>m[k] = v\<close>.
\<close>

type_synonym 'v gomap = "(string \<times> 'v) list"

fun mapassign :: "string \<Rightarrow> 'v \<Rightarrow> 'v gomap \<Rightarrow> 'v gomap" where
  "mapassign k v [] = [(k, v)]"
| "mapassign k v ((k', v') # m) =
     (if k' = k then (k, v) # m else (k', v') # mapassign k v m)"

text \<open>
  Three things are taken from the runtime as they are, since their tables are not part of
  this repository:
  \<^item> \<open>ParseFloat\<close> is \<open>strconv.ParseFloat(s, 64)\<close>, \<open>None\<close> when it returns an error;
    \<open>'f\<close> stands for \<open>float64\<close>;
  \<^item> \<open>UpperRunes\<close> is \<open>strings.Map(unicode.ToUpper, s)\<close>, which \<open>strings.ToUpper\<close>
    only reaches for a string with a byte outside ASCII;
  \<^item> \<open>rangeRank\<close> fixes the order in which a \<open>range\<close> loop visits the keys of a map.
    Go leaves that order open; every order of the keys is the sorted order for some rank.
\<close>

record 'f runtime =
  ParseFloat :: "string \<Rightarrow> 'f option"
  UpperRunes :: "string \<Rightarrow> string"
  rangeRank :: "string \<Rightarrow> nat"

definition rangeKeys :: "'f runtime \<Rightarrow> 'v gomap \<Rightarrow> string list" where
  "rangeKeys rt m = sort_key (rangeRank rt) (map fst m)"

definition isASCII :: "char \<Rightarrow> bool" where
  "isASCII c = (\<not> digit7 c)"

definition upperByte :: "char \<Rightarrow> char" where
  "upperByte c =
     (case map_of (zip ''abcdefghijklmnopqrstuvwxyz'' ''ABCDEFGHIJKLMNOPQRSTUVWXYZ'') c of
        Some u \<Rightarrow> u
      | None \<Rightarrow> c)"

text \<open>\<open>strings.ToUpper\<close>: the ASCII fast path is written out.\<close>

definition ToUpper :: "'f runtime \<Rightarrow> string \<Rightarrow> string" where
  "ToUpper rt s = (if list_all isASCII s then map upperByte s else UpperRunes rt s)"

text \<open>
  \<open>foldName\<close> of \<open>encoding/json\<close>, by which a key selects a struct field when no field
  has exactly its name. ASCII letters go to upper case; the only runes outside ASCII
  that fold to an ASCII letter are U+017F (bytes C5 BF, to \<open>S\<close>) and U+212A (bytes
  E2 84 AA, to \<open>K\<close>). Every other byte outside ASCII is left as it is: it folds to a
  rune outside ASCII, and the result is only ever compared with the ASCII names of
  the fields below.
\<close>

fun foldName :: "string \<Rightarrow> string" where
  "foldName [] = []"
| "foldName (c # cs) =
     (if isASCII c then upperByte c # foldName cs
      else if c = CHR 0xC5 \<and> take 1 cs = [CHR 0xBF] then CHR ''S'' # foldName (drop 1 cs)
      else if c = CHR 0xE2 \<and> take 2 cs = [CHR 0x84, CHR 0xAA] then CHR ''K'' # foldName (drop 2 cs)
      else c # foldName cs)"

text \<open>
  The field a key decodes into: the field of exactly that name, else the first field with
  the same folded name, else none (the member is skipped).
\<close>

definition fieldFor :: "string list \<Rightarrow> string \<Rightarrow> string option" where
  "fieldFor names k =
     (if k \<in> set names then Some k else find (\<lambda>n. foldName n = foldName k) names)"

text \<open>
  \<open>strconv.ParseInt(lit, 10, 64)\<close> on the literal of a JSON number, as the decoder calls
  it for a field of type \<open>int\<close>.
\<close>

definition digitVal :: "char \<Rightarrow> int option" where
  "digitVal c = map_of (zip ''0123456789'' [0, 1, 2, 3, 4, 5, 6, 7, 8, 9]) c"

definition ParseInt64 :: "string \<Rightarrow> int option" where
  "ParseInt64 lit =
     (let neg = (take 1 lit = ''-'');
          ds = (if neg then drop 1 lit else lit)
      in if ds = [] \<or> \<not> list_all (\<lambda>c. digitVal c \<noteq> None) ds then None
         else let n = foldl (\<lambda>a c. 10 * a + the (digitVal c)) 0 ds;
                  v = (if neg then - n else n)
              in if - (2 ^ 63) \<le> v \<and> v \<le> 2 ^ 63 - 1 then Some v else None)"

subsection \<open>json.Unmarshal into the adapter's types\<close>

text \<open>
  \<open>json.Unmarshal\<close> returns a nil error exactly when the document fits the target type:
  \<open>null\<close> fits everything, a member that selects no field is skipped unchecked, and the
  first misfit is remembered while decoding goes on. The adapter uses a decoded value
  only when the error is nil, so fitting (\<open>ok...\<close>) and the decoded value (\<open>dec...\<close>) are
  given separately.
\<close>

definition okString :: "json \<Rightarrow> bool" where
  "okString j = (case j of JNull \<Rightarrow> True | JString s \<Rightarrow> True | _ \<Rightarrow> False)"

definition okInt :: "json \<Rightarrow> bool" where
  "okInt j = (case j of JNull \<Rightarrow> True | JNumber lit \<Rightarrow> ParseInt64 lit \<noteq> None | _ \<Rightarrow> False)"

definition okAny :: "json \<Rightarrow> bool" where
  "okAny j = True"

definition okSlice :: "(json \<Rightarrow> bool) \<Rightarrow> json \<Rightarrow> bool" where
  "okSlice ok j = (case j of JNull \<Rightarrow> True | JArray js \<Rightarrow> list_all ok js | _ \<Rightarrow> False)"

definition okMap :: "(json \<Rightarrow> bool) \<Rightarrow> json \<Rightarrow> bool" where
  "okMap ok j =
     (case j of JNull \<Rightarrow> True | JObject kvs \<Rightarrow> list_all (\<lambda>kv. ok (snd kv)) kvs | _ \<Rightarrow> False)"

definition okStruct :: "(string \<times> (json \<Rightarrow> bool)) list \<Rightarrow> json \<Rightarrow> bool" where
  "okStruct fs j =
     (case j of
        JNull \<Rightarrow> True
      | JObject kvs \<Rightarrow>
          list_all (\<lambda>kv. case fieldFor (map fst fs) (fst kv) of
                           None \<Rightarrow> True
                         | Some n \<Rightarrow> (case map_of fs n of None \<Rightarrow> True | Some ok \<Rightarrow> ok (snd kv)))
                   kvs
      | _ \<Rightarrow> False)"

text \<open>The struct types of the source, field by field with their json tags.\<close>

definition okUniverseItem :: "json \<Rightarrow> bool" where
  "okUniverseItem = okStruct [(''name'', okString), (''szDec'', okInt)]"

definition okMeta :: "json \<Rightarrow> bool" where
  "okMeta = okStruct [(''universe'', okSlice okUniverseItem)]"

definition perpInfoFields :: "(string \<times> (json \<Rightarrow> bool)) list" where
  "perpInfoFields =
     [(''funding'', okString), (''impactPxs'', okSlice okString), (''markPx'', okString),
      (''midPx'', okString), (''openInterest'', okString), (''oraclePx'', okString),
      (''premiums'', okSlice okString), (''volume24h'', okString)]"

definition okPerpInfo :: "json \<Rightarrow> bool" where
  "okPerpInfo = okStruct perpInfoFields"

definition allMidsFields :: "(string \<times> (json \<Rightarrow> bool)) list" where
  "allMidsFields =
     [(''mids'', okMap okString), (''meta'', okMeta), (''data'', okMap okPerpInfo)]"

definition okAllMidsResponse :: "json \<Rightarrow> bool" where
  "okAllMidsResponse = okStruct allMidsFields"

definition okWrappedAllMidsResponse :: "json \<Rightarrow> bool" where
  "okWrappedAllMidsResponse = okStruct [(''data'', okStruct [(''mids'', okMap okString)])]"

text \<open>
  The decoded values. A string keeps its old value under \<open>null\<close>. A map is set to nil
  by \<open>null\<close>; an object is decoded into the map already there (a fresh one when it is
  nil), each member into a fresh zero element that is then assigned under the key.
\<close>

definition decString :: "json \<Rightarrow> string \<Rightarrow> string" where
  "decString j old = (case j of JString s \<Rightarrow> s | _ \<Rightarrow> old)"

definition decMap :: "(json \<Rightarrow> 'v \<Rightarrow> 'v) \<Rightarrow> 'v \<Rightarrow> json \<Rightarrow> 'v gomap option \<Rightarrow> 'v gomap option" where
  "decMap dec zero j old =
     (case j of
        JNull \<Rightarrow> None
      | JObject kvs \<Rightarrow>
          Some (fold (\<lambda>kv m. mapassign (fst kv) (dec (snd kv) zero) m) kvs
                  (case old of None \<Rightarrow> [] | Some m \<Rightarrow> m))
      | _ \<Rightarrow> old)"

text \<open>
  Of \<open>PerpInfo\<close> the adapter reads \<open>MidPx\<close> only. The other seven fields take part in
  \<open>okPerpInfo\<close> above and are not stored.
\<close>

record PerpInfo =
  MidPx :: string

definition zeroPerpInfo :: PerpInfo where
  "zeroPerpInfo = \<lparr>MidPx = []\<rparr>"

definition decPerpInfo :: "json \<Rightarrow> PerpInfo \<Rightarrow> PerpInfo" where
  "decPerpInfo j old =
     (case j of
        JObject kvs \<Rightarrow>
          fold (\<lambda>kv p. if fieldFor (map fst perpInfoFields) (fst kv) = Some ''midPx''
                        then p\<lparr>MidPx := decString (snd kv) (MidPx p)\<rparr> else p)
               kvs old
      | _ \<Rightarrow> old)"

text \<open>\<open>AllMidsResponse\<close>; \<open>Meta\<close> is never read and only takes part in the fitting.\<close>

record AllMidsResponse =
  Mids :: "string gomap option"
  Data :: "PerpInfo gomap option"

definition decAllMidsResponse :: "json \<Rightarrow> AllMidsResponse \<Rightarrow> AllMidsResponse" where
  "decAllMidsResponse j old =
     (case j of
        JObject kvs \<Rightarrow>
          fold (\<lambda>kv r.
                  if fieldFor (map fst allMidsFields) (fst kv) = Some ''mids''
                  then r\<lparr>Mids := decMap decString [] (snd kv) (Mids r)\<rparr>
                  else if fieldFor (map fst allMidsFields) (fst kv) = Some ''data''
                  then r\<lparr>Data := decMap decPerpInfo zeroPerpInfo (snd kv) (Data r)\<rparr>
                  else r)
               kvs old
      | _ \<Rightarrow> old)"

text \<open>\<open>WrappedAllMidsResponse\<close>: the value is its one field, \<open>Data.Mids\<close>.\<close>

definition decWrappedData :: "json \<Rightarrow> string gomap option \<Rightarrow> string gomap option" where
  "decWrappedData j old =
     (case j of
        JObject kvs \<Rightarrow>
          fold (\<lambda>kv mids. if fieldFor [''mids''] (fst kv) = Some ''mids''
                           then decMap decString [] (snd kv) mids else mids)
               kvs old
      | _ \<Rightarrow> old)"

definition decWrappedAllMidsResponse :: "json \<Rightarrow> string gomap option \<Rightarrow> string gomap option" where
  "decWrappedAllMidsResponse j old =
     (case j of
        JObject kvs \<Rightarrow>
          fold (\<lambda>kv mids. if fieldFor [''data''] (fst kv) = Some ''data''
                           then decWrappedData (snd kv) mids else mids)
               kvs old
      | _ \<Rightarrow> old)"

text \<open>
  The four calls of \<open>json.Unmarshal\<close> in \<open>GetPrice\<close>, each into a freshly declared
  variable. The body is \<open>None\<close> when it is not a JSON document at all; \<open>None\<close> as result
  is a non-nil error.
\<close>

definition unmarshalDirectMids :: "json option \<Rightarrow> string gomap option option" where
  "unmarshalDirectMids body =
     (case body of
        None \<Rightarrow> None
      | Some j \<Rightarrow> if okMap okString j then Some (decMap decString [] j None) else None)"

definition unmarshalWrapped :: "json option \<Rightarrow> string gomap option option" where
  "unmarshalWrapped body =
     (case body of
        None \<Rightarrow> None
      | Some j \<Rightarrow>
          if okWrappedAllMidsResponse j then Some (decWrappedAllMidsResponse j None) else None)"

definition unmarshalAllMids :: "json option \<Rightarrow> AllMidsResponse option" where
  "unmarshalAllMids body =
     (case body of
        None \<Rightarrow> None
      | Some j \<Rightarrow>
          if okAllMidsResponse j
          then Some (decAllMidsResponse j \<lparr>Mids = None, Data = None\<rparr>) else None)"

definition unmarshalGeneric :: "json option \<Rightarrow> unit gomap option option" where
  "unmarshalGeneric body =
     (case body of
        None \<Rightarrow> None
      | Some j \<Rightarrow> if okMap okAny j then Some (decMap (\<lambda>j old. ()) () j None) else None)"

subsection \<open>GetPrice\<close>

text \<open>
  The outcome of \<open>c.client.Do(req)\<close>: a transport failure, or a response with its status
  code and its body. \<open>BodyBytes\<close> is what \<open>io.ReadAll\<close> returned, \<open>ReadErr\<close> whether it
  returned an error with it, and \<open>Document\<close> is \<open>BodyBytes\<close> as JSON (\<open>None\<close> when the
  bytes are no JSON document).
\<close>

record response =
  StatusCode :: int
  BodyBytes :: string
  ReadErr :: bool
  Document :: "json option"

datatype transport = DoFailed | Got response

text \<open>
  The errors of \<open>GetPrice\<close>, one constructor for each \<open>fmt.Errorf\<close> with the arguments
  it formats. Marshalling the constant request body and building the request cannot
  fail, so these two returns have no constructor.
\<close>

datatype error =
    RequestFailed
  | ApiStatus int string
  | ReadBodyFailed
  | ParsePriceFailed string
  | CoinNotFound string "string list"
  | CoinNotFoundRaw string string

definition parsePrice :: "'f runtime \<Rightarrow> string \<Rightarrow> string \<Rightarrow> error + 'f" where
  "parsePrice rt coin priceStr =
     (case ParseFloat rt priceStr of None \<Rightarrow> Inl (ParsePriceFailed coin) | Some price \<Rightarrow> Inr price)"

text \<open>
  The block the source repeats for each candidate map: the exact key first, then the
  \<open>range\<close> loop that takes the first key, in the runtime's order, whose upper case is
  that of the coin. \<open>None\<close> means the block fell through.
\<close>

definition lookupCoin :: "'f runtime \<Rightarrow> string \<Rightarrow> 'v gomap \<Rightarrow> 'v option" where
  "lookupCoin rt coin m =
     (case map_of m coin of
        Some v \<Rightarrow> Some v
      | None \<Rightarrow>
          (case find (\<lambda>key. ToUpper rt key = ToUpper rt coin) (rangeKeys rt m) of
             None \<Rightarrow> None
           | Some key \<Rightarrow> map_of m key))"

definition tryFormat1 :: "'f runtime \<Rightarrow> json option \<Rightarrow> string \<Rightarrow> (error + 'f) option" where
  "tryFormat1 rt body coin =
     (case unmarshalDirectMids body of
        Some (Some directMids) \<Rightarrow>
          if length directMids > 0
          then map_option (parsePrice rt coin) (lookupCoin rt coin directMids) else None
      | _ \<Rightarrow> None)"

definition tryFormat2 :: "'f runtime \<Rightarrow> json option \<Rightarrow> string \<Rightarrow> (error + 'f) option" where
  "tryFormat2 rt body coin =
     (case unmarshalWrapped body of
        Some (Some mids) \<Rightarrow> map_option (parsePrice rt coin) (lookupCoin rt coin mids)
      | _ \<Rightarrow> None)"

definition tryFormat3 :: "'f runtime \<Rightarrow> json option \<Rightarrow> string \<Rightarrow> (error + 'f) option" where
  "tryFormat3 rt body coin =
     (case unmarshalAllMids body of
        None \<Rightarrow> None
      | Some resp \<Rightarrow>
          (case (case Mids resp of
                   None \<Rightarrow> None
                 | Some mids \<Rightarrow> map_option (parsePrice rt coin) (lookupCoin rt coin mids)) of
             Some r \<Rightarrow> Some r
           | None \<Rightarrow>
               (case Data resp of
                  None \<Rightarrow> None
                | Some d \<Rightarrow>
                    map_option (\<lambda>perpInfo. parsePrice rt coin (MidPx perpInfo))
                      (lookupCoin rt coin d))))"

definition getMapKeys :: "'f runtime \<Rightarrow> unit gomap \<Rightarrow> string list" where
  "getMapKeys rt m = rangeKeys rt m"

definition notFound :: "'f runtime \<Rightarrow> response \<Rightarrow> string \<Rightarrow> error" where
  "notFound rt resp coin =
     (case unmarshalGeneric (Document resp) of
        Some genericResponse \<Rightarrow>
          CoinNotFound coin
            (getMapKeys rt (case genericResponse of None \<Rightarrow> [] | Some m \<Rightarrow> m))
      | None \<Rightarrow>
          CoinNotFoundRaw coin
            (take (min 500 (length (BodyBytes resp))) (BodyBytes resp)))"

definition GetPrice :: "'f runtime \<Rightarrow> transport \<Rightarrow> string \<Rightarrow> error + 'f" where
  "GetPrice rt tr coin =
     (case tr of
        DoFailed \<Rightarrow> Inl RequestFailed
      | Got resp \<Rightarrow>
          if StatusCode resp \<noteq> 200 then Inl (ApiStatus (StatusCode resp) (BodyBytes resp))
          else if ReadErr resp then Inl ReadBodyFailed
          else (case tryFormat1 rt (Document resp) coin of
                  Some r \<Rightarrow> r
                | None \<Rightarrow>
                    (case tryFormat2 rt (Document resp) coin of
                       Some r \<Rightarrow> r
                     | None \<Rightarrow>
                         (case tryFormat3 rt (Document resp) coin of
                            Some r \<Rightarrow> r
                          | None \<Rightarrow> Inl (notFound rt resp coin)))))"

section \<open>The observation store (package models, through gorm)\<close>

text \<open>
  An instant is a count of nanoseconds, as \<open>time.Duration\<close> counts them. The table
  \<open>coin_prices\<close> is the list of its rows; \<open>DeletedAt\<close> is \<open>None\<close> for SQL \<open>NULL\<close>.
\<close>

type_synonym time = int

definition Hour :: int where
  "Hour = 3600 * 1000000000"

record 'f CoinPrice =
  ID :: nat
  Coin :: string
  Price :: 'f
  CreatedAt :: time
  UpdatedAt :: time
  DeletedAt :: "time option"

type_synonym 'f table = "'f CoinPrice list"

text \<open>
  The statements gorm issues for the calls of this repository. \<open>CoinPrice\<close> has a
  \<open>gorm.DeletedAt\<close> field, so every query and every delete carries
  \<open>deleted_at IS NULL\<close>, and \<open>Delete\<close> is an \<open>UPDATE\<close> that sets \<open>deleted_at\<close>.
  \<open>ORDER BY created_at DESC\<close> leaves the order of rows with equal \<open>created_at\<close> to the
  engine; here they come in table order.
\<close>

definition dbCount :: "('f CoinPrice \<Rightarrow> bool) \<Rightarrow> 'f table \<Rightarrow> int" where
  "dbCount cond t = int (length (filter (\<lambda>r. cond r \<and> DeletedAt r = None) t))"

definition dbFindOrderCreatedAtDesc :: "('f CoinPrice \<Rightarrow> bool) \<Rightarrow> 'f table \<Rightarrow> 'f CoinPrice list" where
  "dbFindOrderCreatedAtDesc cond t =
     sort_key (\<lambda>r. - CreatedAt r) (filter (\<lambda>r. cond r \<and> DeletedAt r = None) t)"

definition dbDelete :: "('f CoinPrice \<Rightarrow> bool) \<Rightarrow> time \<Rightarrow> 'f table \<Rightarrow> 'f table \<times> nat" where
  "dbDelete cond stamp t =
     (map (\<lambda>r. if cond r \<and> DeletedAt r = None then r\<lparr>DeletedAt := Some stamp\<rparr> else r) t,
      length (filter (\<lambda>r. cond r \<and> DeletedAt r = None) t))"

text \<open>
  \<open>Create\<close> of a \<open>CoinPrice\<close> with \<open>Coin\<close> and \<open>Price\<close> set: the store assigns the
  primary key, gorm fills \<open>CreatedAt\<close> and \<open>UpdatedAt\<close> with the time of the insert.
\<close>

definition dbCreate :: "nat \<Rightarrow> time \<Rightarrow> string \<Rightarrow> 'f \<Rightarrow> 'f table \<Rightarrow> 'f table" where
  "dbCreate newID insertTime coin price t =
     t @ [\<lparr>ID = newID, Coin = coin, Price = price, CreatedAt = insertTime,
           UpdatedAt = insertTime, DeletedAt = None\<rparr>]"

section \<open>The query service (package handlers)\<close>

record 'f PriceResponse =
  respCoin :: string
  respPrice :: 'f
  respCreatedAt :: time

record 'f PriceComparisonResponse =
  cmpCoin :: string
  Prices :: "'f PriceResponse list"
  Count :: int

datatype 'f reply =
    ErrorJSON nat string
  | ComparisonJSON nat "'f PriceComparisonResponse"

text \<open>The queries a request sends to the store, in the order it sends them.\<close>

datatype query = CountQuery string time | FindQuery string time

definition toPriceResponse :: "'f CoinPrice \<Rightarrow> 'f PriceResponse" where
  "toPriceResponse price =
     \<lparr>respCoin = Coin price, respPrice = Price price, respCreatedAt = CreatedAt price\<rparr>"

text \<open>
  \<open>GetPriceComparison\<close>. The handler sends two statements, and the table may change or
  the store may fail between them: \<open>atCount\<close> is the table the \<open>Count\<close> sees and
  \<open>atFind\<close> the table the \<open>Find\<close> sees, \<open>None\<close> when that statement returns an error.
\<close>

definition GetPriceComparison ::
  "time \<Rightarrow> 'f table option \<Rightarrow> 'f table option \<Rightarrow> string \<Rightarrow> 'f reply \<times> query list" where
  "GetPriceComparison now atCount atFind coin =
     (if coin = [] then (ErrorJSON 400 ''coin symbol is required'', [])
      else
        let twentyFourHoursAgo = now - 24 * Hour;
            cond = (\<lambda>r. Coin r = coin \<and> CreatedAt r \<ge> twentyFourHoursAgo)
        in case atCount of
             None \<Rightarrow>
               (ErrorJSON 500 ''failed to count prices'', [CountQuery coin twentyFourHoursAgo])
           | Some t1 \<Rightarrow>
               (case atFind of
                  None \<Rightarrow>
                    (ErrorJSON 500 ''failed to fetch prices'',
                     [CountQuery coin twentyFourHoursAgo, FindQuery coin twentyFourHoursAgo])
                | Some t2 \<Rightarrow>
                    (ComparisonJSON 200
                       \<lparr>cmpCoin = coin,
                        Prices = map toPriceResponse (dbFindOrderCreatedAtDesc cond t2),
                        Count = dbCount cond t1\<rparr>,
                     [CountQuery coin twentyFourHoursAgo, FindQuery coin twentyFourHoursAgo])))"

section \<open>The workers (package workers)\<close>

subsection \<open>cleanup\<close>

text \<open>
  One run of \<open>cleanup\<close>. \<open>addDate\<close> is \<open>Time.AddDate\<close> of the process's time zone,
  \<open>now\<close> the reading of \<open>time.Now()\<close>, \<open>stamp\<close> the later reading gorm writes into
  \<open>deleted_at\<close>, and \<open>fails\<close> says whether the statement returns an error (it then
  changes nothing). The run returns the table and the line it logs.
\<close>

datatype cleanupLog = CleanupError | CleanupCompleted nat time

definition cleanup ::
  "(time \<Rightarrow> int \<Rightarrow> int \<Rightarrow> int \<Rightarrow> time) \<Rightarrow> time \<Rightarrow> time \<Rightarrow> bool \<Rightarrow> 'f table
     \<Rightarrow> 'f table \<times> cleanupLog" where
  "cleanup addDate now stamp fails t =
     (let cutoff = addDate now 0 0 (- 2)
      in if fails then (t, CleanupError)
         else let result = dbDelete (\<lambda>r. CreatedAt r < cutoff) stamp t
              in (fst result, CleanupCompleted (snd result) cutoff))"

text \<open>\<open>AddDate\<close> for days in a zone whose offset does not change, such as UTC.\<close>

definition addDateUTC :: "time \<Rightarrow> int \<Rightarrow> int \<Rightarrow> int \<Rightarrow> time" where
  "addDateUTC t years months days = t + days * 24 * Hour"

subsection \<open>fetchPrices\<close>

text \<open>
  What the world answers to the \<open>i\<close>-th symbol of a cycle: the outcome of the request
  \<open>GetPrice\<close> sends, and the outcome of the insert should it come to one.
\<close>

datatype createOutcome = CreateFailed | Created nat time

record exchange =
  answered :: transport
  stored :: createOutcome

datatype 'f fetchLog =
    ErrorFetching string error
  | ErrorSaving string
  | Saved string 'f

definition NewPriceFetcherCoins :: "string list" where
  "NewPriceFetcherCoins = [''BTC'', ''ETH'', ''SOL'', ''ARB'', ''AVAX'']"

text \<open>The body of the loop for one symbol, and the loop.\<close>

definition fetchOne ::
  "'f runtime \<Rightarrow> exchange \<Rightarrow> string \<Rightarrow> 'f table \<Rightarrow> 'f table \<times> 'f fetchLog" where
  "fetchOne rt x coin t =
     (case GetPrice rt (answered x) coin of
        Inl err \<Rightarrow> (t, ErrorFetching coin err)
      | Inr price \<Rightarrow>
          (case stored x of
             CreateFailed \<Rightarrow> (t, ErrorSaving coin)
           | Created newID insertTime \<Rightarrow>
               (dbCreate newID insertTime coin price t, Saved coin price)))"

fun fetchPrices ::
  "'f runtime \<Rightarrow> (nat \<Rightarrow> exchange) \<Rightarrow> nat \<Rightarrow> string list \<Rightarrow> 'f table
     \<Rightarrow> 'f table \<times> 'f fetchLog list" where
  "fetchPrices rt world i [] t = (t, [])"
| "fetchPrices rt world i (coin # coins) t =
     (let (t', line) = fetchOne rt (world i) coin t;
          (t'', rest) = fetchPrices rt world (Suc i) coins t'
      in (t'', line # rest))"

section \<open>Fixtures\<close>

text \<open>
  A runtime to run the adapter on: \<open>ParseFloat\<close> reads a plain decimal numeral as the
  number it denotes, \<open>range\<close> visits the keys in the order they were inserted.
\<close>

definition parseDecimal :: "string \<Rightarrow> real option" where
  "parseDecimal s =
     (let whole = takeWhile (\<lambda>c. c \<noteq> CHR ''.'') s;
          frac = drop 1 (dropWhile (\<lambda>c. c \<noteq> CHR ''.'') s)
      in if whole = [] \<or> \<not> list_all (\<lambda>c. digitVal c \<noteq> None) (whole @ frac) then None
         else Some (of_int (foldl (\<lambda>a c. 10 * a + the (digitVal c)) 0 (whole @ frac))
                      / 10 ^ length frac))"

definition plainRuntime :: "real runtime" where
  "plainRuntime = \<lparr>ParseFloat = parseDecimal, UpperRunes = (\<lambda>s. s), rangeRank = (\<lambda>k. 0)\<rparr>"

definition respond :: "json \<Rightarrow> transport" where
  "respond j = Got \<lparr>StatusCode = 200, BodyBytes = [], ReadErr = False, Document = Some j\<rparr>"

text \<open>
  The payload shapes the adapter is written for. \<open>flat m\<close> is the object with one
  string member per entry of \<open>m\<close>; \<open>perps d\<close> is the object that gives each symbol a
  record whose \<open>midPx\<close> is the entry of \<open>d\<close>. \<open>entry kvs k\<close> is the value an object
  ends up giving to a key: that of its last member of that name. \<open>loaded kvs m\<close> is the
  Go map \<open>m\<close> after the members \<open>kvs\<close> were assigned to it in turn.
\<close>

definition entry :: "(string \<times> 'v) list \<Rightarrow> string \<Rightarrow> 'v option" where
  "entry kvs k = map_of (rev kvs) k"

definition loaded :: "(string \<times> 'v) list \<Rightarrow> 'v gomap \<Rightarrow> 'v gomap" where
  "loaded kvs m = fold (\<lambda>kv m. mapassign (fst kv) (snd kv) m) kvs m"

definition flat :: "(string \<times> string) list \<Rightarrow> json" where
  "flat m = JObject (map (\<lambda>kv. (fst kv, JString (snd kv))) m)"

definition perps :: "(string \<times> string) list \<Rightarrow> json" where
  "perps d = JObject (map (\<lambda>kv. (fst kv, JObject [(''midPx'', JString (snd kv))])) d)"

text \<open>
  \<open>wrapped m\<close> is the flat map under \<open>data.mids\<close>, the shape
  \<open>WrappedAllMidsResponse\<close> declares; \<open>nested\<close> is the shape of \<open>AllMidsResponse\<close>, a
  \<open>mids\<close> map, a \<open>data\<close> map of records, or both.
\<close>

definition wrapped :: "(string \<times> string) list \<Rightarrow> json" where
  "wrapped m = JObject [(''data'', JObject [(''mids'', flat m)])]"

definition nested ::
  "(string \<times> string) list option \<Rightarrow> (string \<times> string) list option \<Rightarrow> json" where
  "nested mids dat =
     JObject ((case mids of None \<Rightarrow> [] | Some m \<Rightarrow> [(''mids'', flat m)])
              @ (case dat of None \<Rightarrow> [] | Some d \<Rightarrow> [(''data'', perps d)]))"


text \<open>Tables to run the query service and the retention cycle on.\<close>

definition ethRows :: "real table" where
  "ethRows =
     [\<lparr>ID = 1, Coin = ''ETH'', Price = 3000, CreatedAt = 75 * Hour, UpdatedAt = 75 * Hour,
       DeletedAt = None\<rparr>,
      \<lparr>ID = 2, Coin = ''ETH'', Price = 3100, CreatedAt = 99 * Hour, UpdatedAt = 99 * Hour,
       DeletedAt = None\<rparr>,
      \<lparr>ID = 3, Coin = ''ETH'', Price = 3200, CreatedAt = 98 * Hour, UpdatedAt = 98 * Hour,
       DeletedAt = Some (99 * Hour)\<rparr>,
      \<lparr>ID = 4, Coin = ''BTC'', Price = 65000, CreatedAt = 99 * Hour, UpdatedAt = 99 * Hour,
       DeletedAt = None\<rparr>]"

definition oldRow :: "real CoinPrice" where
  "oldRow =
     \<lparr>ID = 1, Coin = ''BTC'', Price = 65000, CreatedAt = 0, UpdatedAt = 0, DeletedAt = None\<rparr>"

text \<open>
  For a cycle of the fetch loop: the symbol a log line is about, and the rows one symbol
  adds to the table given what the world answered to it.
\<close>

definition lineCoin :: "'f fetchLog \<Rightarrow> string" where
  "lineCoin line = (case line of ErrorFetching c e \<Rightarrow> c | ErrorSaving c \<Rightarrow> c | Saved c p \<Rightarrow> c)"

definition insertedRows :: "'f runtime \<Rightarrow> exchange \<Rightarrow> string \<Rightarrow> 'f CoinPrice list" where
  "insertedRows rt x coin =
     (case (GetPrice rt (answered x) coin, stored x) of
        (Inr price, Created newID insertTime) \<Rightarrow>
          [\<lparr>ID = newID, Coin = coin, Price = price, CreatedAt = insertTime,
            UpdatedAt = insertTime, DeletedAt = None\<rparr>]
      | _ \<Rightarrow> [])"

section \<open>The adapter: shapes, lookup, errors\<close>

subsection \<open>Go maps and the flat shape\<close>


lemma keys_mapassign_list:
  "map fst (mapassign k v m) = (if k \<in> set (map fst m) then map fst m else map fst m @ [k])"
  by (induction m) (auto simp: rev_image_eqI)

lemma keys_mapassign: "fst ` set (mapassign k v m) = insert k (fst ` set m)"
proof -
  have "set (map fst (mapassign k v m)) = insert k (set (map fst m))"
    unfolding keys_mapassign_list by auto
  then show ?thesis by simp
qed

lemma mapassign_nonempty: "mapassign k v m \<noteq> []"
  by (cases m) (auto split: if_splits)

lemma loaded_Cons: "loaded (kv # kvs) m = loaded kvs (mapassign (fst kv) (snd kv) m)"
  by (simp add: loaded_def)


lemma keys_loaded: "fst ` set (loaded kvs m) = fst ` set m \<union> fst ` set kvs"
proof (induction kvs arbitrary: m)
  case Nil
  show ?case by (simp add: loaded_def)
next
  case (Cons kv kvs)
  show ?case by (simp add: loaded_Cons Cons.IH keys_mapassign)
qed




lemma set_rangeKeys: "set (rangeKeys rt m) = fst ` set m"
  by (simp add: rangeKeys_def)

lemma ok_flat: "okMap okString (flat m)"
  by (simp add: okMap_def flat_def okString_def list_all_iff)

lemma dec_flat:
  "decMap decString [] (flat m) old = Some (loaded m (case old of None \<Rightarrow> [] | Some x \<Rightarrow> x))"
  by (simp add: decMap_def flat_def loaded_def fold_map comp_def decString_def)

lemma unmarshalDirectMids_flat: "unmarshalDirectMids (Some (flat m)) = Some (Some (loaded m []))"
  by (simp add: unmarshalDirectMids_def ok_flat dec_flat)

subsection \<open>The lookup block\<close>


lemma lookupCoin_absent:
  assumes "\<forall>k \<in> fst ` set m. ToUpper rt k \<noteq> ToUpper rt coin"
  shows "lookupCoin rt coin m = None"
proof -
  have "coin \<notin> fst ` set m" using assms by blast
  then have "map_of m coin = None" by (simp add: map_of_eq_None_iff)
  moreover have "find (\<lambda>key. ToUpper rt key = ToUpper rt coin) (rangeKeys rt m) = None"
    using assms by (simp add: find_None_iff set_rangeKeys)
  ultimately show ?thesis by (simp add: lookupCoin_def)
qed
















lemma fold_names:
  "foldName ''data'' = ''DATA''" "foldName ''mids'' = ''MIDS''" "foldName ''meta'' = ''META''"
  by (simp_all add: isASCII_def upperByte_def)







lemma field_single: "fieldFor [n] k = Some n' \<Longrightarrow> n' = n"
  by (auto simp: fieldFor_def split: if_splits)

subsection \<open>Format 2 on the wrapped shape\<close>



subsection \<open>Format 2 falls through on the nested shape\<close>




lemma ok_wrapped_perps: "okStruct [(''mids'', okMap okString)] (perps d)"
  by (auto simp: okStruct_def perps_def list_all_iff okMap_def okString_def
      split: option.splits dest: field_single)



subsection \<open>Format 3 on the nested shape\<close>















subsection \<open>The claims about the adapter\<close>







text \<open>
  C3. For a payload in the wrapped or the nested shape that lacks the coin, the error
  lists the top-level keys of the object (\<open>data\<close>, \<open>mids\<close>), not the symbols present:
  \<open>ETH\<close> is in the payload and not in the list. (\<open>flat_not_found_lists_symbols\<close> below
  shows the list is the set of symbols for a flat payload.)
\<close>

theorem not_found_lists_wrapper_key:
  "GetPrice plainRuntime (respond (wrapped [(''ETH'', ''3000.5'')])) ''BTC''
     = Inl (CoinNotFound ''BTC'' [''data''])
   \<and> GetPrice plainRuntime (respond (nested (Some [(''ETH'', ''3000.5'')]) None)) ''BTC''
     = Inl (CoinNotFound ''BTC'' [''mids''])"
  by code_simp

text \<open>
  C4. For a response with status 503 and a body of 501 bytes the error carries the
  status code and all 501 bytes: the body is not truncated. The same body under status
  200 reaches the last return of \<open>GetPrice\<close>, whose error carries its first 500 bytes.
  (\<open>non_ok_status\<close> below: for every status other than 200 the error is returned
  before the body is looked at as JSON.)
\<close>

theorem status_error_carries_whole_body:
  "GetPrice plainRuntime
     (Got \<lparr>StatusCode = 503, BodyBytes = replicate 501 (CHR ''x''), ReadErr = False,
           Document = None\<rparr>) ''BTC''
     = Inl (ApiStatus 503 (replicate 501 (CHR ''x'')))
   \<and> length (replicate 501 (CHR ''x'')) = 501
   \<and> GetPrice plainRuntime
     (Got \<lparr>StatusCode = 200, BodyBytes = replicate 501 (CHR ''x''), ReadErr = False,
           Document = None\<rparr>) ''BTC''
     = Inl (CoinNotFoundRaw ''BTC'' (replicate 500 (CHR ''x'')))"
  by (simp add: GetPrice_def tryFormat1_def tryFormat2_def tryFormat3_def notFound_def
      unmarshalDirectMids_def unmarshalWrapped_def unmarshalAllMids_def unmarshalGeneric_def)


subsection \<open>Further facts about the error paths\<close>

lemma non_ok_status:
  "StatusCode resp \<noteq> 200 \<Longrightarrow>
     GetPrice rt (Got resp) coin = Inl (ApiStatus (StatusCode resp) (BodyBytes resp))"
  by (simp add: GetPrice_def)

lemma dec_wrapped_flat: "decWrappedAllMidsResponse (flat m) old = old"
proof -
  have "fold (\<lambda>kv mids. if fieldFor [''data''] (fst kv) = Some ''data''
                          then decWrappedData (snd kv) mids else mids)
          (map (\<lambda>kv. (fst kv, JString (snd kv))) m) old = old"
    by (induction m arbitrary: old) (simp_all add: decWrappedData_def)
  then show ?thesis by (simp add: decWrappedAllMidsResponse_def flat_def)
qed

lemma format2_flat: "tryFormat2 rt (Some (flat m)) coin = None"
  by (simp add: tryFormat2_def unmarshalWrapped_def dec_wrapped_flat)

lemma dec_allMids_flat: "decAllMidsResponse (flat m) r = r"
proof -
  have "fold (\<lambda>kv r.
                  if fieldFor (map fst allMidsFields) (fst kv) = Some ''mids''
                  then r\<lparr>Mids := decMap decString [] (snd kv) (Mids r)\<rparr>
                  else if fieldFor (map fst allMidsFields) (fst kv) = Some ''data''
                  then r\<lparr>Data := decMap decPerpInfo zeroPerpInfo (snd kv) (Data r)\<rparr>
                  else r)
          (map (\<lambda>kv. (fst kv, JString (snd kv))) m) r = r"
    by (induction m arbitrary: r) (simp_all add: decMap_def)
  then show ?thesis by (simp add: decAllMidsResponse_def flat_def)
qed

lemma format3_flat: "tryFormat3 rt (Some (flat m)) coin = None"
  by (simp add: tryFormat3_def unmarshalAllMids_def dec_allMids_flat)

lemma unmarshalGeneric_flat:
  "unmarshalGeneric (Some (flat m)) = Some (Some (loaded (map (\<lambda>kv. (fst kv, ())) m) []))"
  by (simp add: unmarshalGeneric_def okMap_def okAny_def flat_def list_all_iff decMap_def
      loaded_def fold_map comp_def)

lemma format1_flat_absent:
  assumes "\<forall>k \<in> fst ` set m. ToUpper rt k \<noteq> ToUpper rt coin"
  shows "tryFormat1 rt (Some (flat m)) coin = None"
proof -
  have "lookupCoin rt coin (loaded m []) = None"
    using assms by (intro lookupCoin_absent) (simp add: keys_loaded)
  then show ?thesis by (simp add: tryFormat1_def unmarshalDirectMids_flat)
qed

lemma flat_not_found_lists_symbols:
  assumes "\<forall>k \<in> fst ` set m. ToUpper rt k \<noteq> ToUpper rt coin"
  shows "\<exists>available. GetPrice rt (respond (flat m)) coin = Inl (CoinNotFound coin available)
           \<and> set available = fst ` set m"
proof -
  let ?keys = "rangeKeys rt (loaded (map (\<lambda>kv. (fst kv, ())) m) [])"
  have "GetPrice rt (respond (flat m)) coin = Inl (CoinNotFound coin ?keys)"
    using format1_flat_absent [OF assms]
    by (simp add: GetPrice_def respond_def format2_flat format3_flat notFound_def
        unmarshalGeneric_flat getMapKeys_def)
  moreover have "set ?keys = fst ` set m"
    by (simp add: set_rangeKeys keys_loaded image_image)
  ultimately show ?thesis by blast
qed

section \<open>The query service: window, order, count\<close>

lemma sorted_desc_find:
  "sorted_wrt (\<lambda>a b. CreatedAt a \<ge> CreatedAt b) (dbFindOrderCreatedAtDesc cond t)"
proof -
  have "sorted (map (\<lambda>r. - CreatedAt r) (dbFindOrderCreatedAtDesc cond t))"
    unfolding dbFindOrderCreatedAtDesc_def by (rule sorted_sort_key)
  then show ?thesis by (simp add: sorted_map)
qed

lemma mset_find:
  "mset (dbFindOrderCreatedAtDesc cond t) =
     filter_mset (\<lambda>r. cond r \<and> DeletedAt r = None) (mset t)"
  by (simp add: dbFindOrderCreatedAtDesc_def)

lemma length_find: "int (length (dbFindOrderCreatedAtDesc cond t)) = dbCount cond t"
  by (simp add: dbFindOrderCreatedAtDesc_def dbCount_def)

lemma eth_reply:
  "GetPriceComparison (100 * Hour) (Some ethRows) (Some ethRows) ''ETH'' =
     (ComparisonJSON 200
        \<lparr>cmpCoin = ''ETH'',
         Prices = [\<lparr>respCoin = ''ETH'', respPrice = 3100, respCreatedAt = 99 * Hour\<rparr>],
         Count = 1\<rparr>,
      [CountQuery ''ETH'' (76 * Hour), FindQuery ''ETH'' (76 * Hour)])"
  by (simp add: GetPriceComparison_def ethRows_def Let_def dbCount_def
      dbFindOrderCreatedAtDesc_def toPriceResponse_def Hour_def)

text \<open>
  C5. For a symbol that is not empty and a table \<open>t\<close> that both statements see, the reply
  is 200 under the requested symbol, and its \<open>prices\<close> are the coin, the price and the
  \<open>created_at\<close> of the rows of \<open>t\<close> that have this coin, a \<open>created_at\<close> at or after now
  minus 24 hours and no deletion mark: one entry for each such row and no other entry.
  The entries are in descending order of \<open>created_at\<close>, each has the requested coin and
  a \<open>created_at\<close> inside the window, and \<open>count\<close> is their number. When no row
  qualifies the list is empty and the count is zero, still under status 200.
\<close>

theorem query_window:
  assumes "coin \<noteq> []"
  shows "\<exists>resp rows.
      GetPriceComparison now (Some t) (Some t) coin =
        (ComparisonJSON 200 resp,
         [CountQuery coin (now - 24 * Hour), FindQuery coin (now - 24 * Hour)])
      \<and> cmpCoin resp = coin
      \<and> Prices resp =
          map (\<lambda>r. \<lparr>respCoin = Coin r, respPrice = Price r, respCreatedAt = CreatedAt r\<rparr>) rows
      \<and> mset rows =
          filter_mset (\<lambda>r. Coin r = coin \<and> now - 24 * Hour \<le> CreatedAt r \<and> DeletedAt r = None)
            (mset t)
      \<and> sorted_wrt (\<lambda>a b. CreatedAt a \<ge> CreatedAt b) rows
      \<and> mset (Prices resp) =
          image_mset
            (\<lambda>r. \<lparr>respCoin = Coin r, respPrice = Price r, respCreatedAt = CreatedAt r\<rparr>)
            (filter_mset
               (\<lambda>r. Coin r = coin \<and> now - 24 * Hour \<le> CreatedAt r \<and> DeletedAt r = None)
               (mset t))
      \<and> sorted_wrt (\<lambda>a b. respCreatedAt a \<ge> respCreatedAt b) (Prices resp)
      \<and> (\<forall>e \<in> set (Prices resp). respCoin e = coin \<and> now - 24 * Hour \<le> respCreatedAt e)
      \<and> Count resp = int (length (Prices resp))
      \<and> ((\<forall>r \<in> set t. \<not> (Coin r = coin \<and> now - 24 * Hour \<le> CreatedAt r \<and> DeletedAt r = None))
           \<longrightarrow> Prices resp = [] \<and> Count resp = 0)"
proof -
  let ?cond = "\<lambda>r. Coin r = coin \<and> CreatedAt r \<ge> now - 24 * Hour"
  let ?live = "\<lambda>r. Coin r = coin \<and> now - 24 * Hour \<le> CreatedAt r \<and> DeletedAt r = None"
  let ?entry = "\<lambda>r. \<lparr>respCoin = Coin r, respPrice = Price r, respCreatedAt = CreatedAt r\<rparr>"
  let ?rows = "dbFindOrderCreatedAtDesc ?cond t"
  let ?resp = "\<lparr>cmpCoin = coin, Prices = map ?entry ?rows, Count = int (length ?rows)\<rparr>"
  have conv: "map toPriceResponse ?rows = map ?entry ?rows"
    by (simp add: toPriceResponse_def)
  have reply: "GetPriceComparison now (Some t) (Some t) coin =
        (ComparisonJSON 200 ?resp,
         [CountQuery coin (now - 24 * Hour), FindQuery coin (now - 24 * Hour)])"
    using assms by (simp add: GetPriceComparison_def Let_def length_find conv)
  have bag: "mset ?rows = filter_mset ?live (mset t)"
    by (simp add: mset_find conj_assoc)
  have ordered: "sorted_wrt (\<lambda>a b. CreatedAt a \<ge> CreatedAt b) ?rows"
    by (rule sorted_desc_find)
  have entries: "mset (map ?entry ?rows) = image_mset ?entry (filter_mset ?live (mset t))"
    by (simp only: mset_map bag)
  have ordered_entries: "sorted_wrt (\<lambda>a b. respCreatedAt a \<ge> respCreatedAt b) (map ?entry ?rows)"
    using ordered by (simp add: sorted_wrt_map)
  have "set_mset (mset ?rows) = {r \<in> set t. ?live r}"
    by (simp only: bag set_mset_filter set_mset_mset)
  then have members: "set ?rows = {r \<in> set t. ?live r}"
    by (simp only: set_mset_mset)
  have inside:
    "\<forall>e \<in> set (map ?entry ?rows). respCoin e = coin \<and> now - 24 * Hour \<le> respCreatedAt e"
    unfolding set_map members by auto
  have none: "(\<forall>r \<in> set t. \<not> ?live r) \<longrightarrow> ?rows = []"
    by (auto simp: dbFindOrderCreatedAtDesc_def filter_empty_conv)
  show ?thesis
  proof (intro exI conjI)
    show "GetPriceComparison now (Some t) (Some t) coin =
        (ComparisonJSON 200 ?resp,
         [CountQuery coin (now - 24 * Hour), FindQuery coin (now - 24 * Hour)])"
      by (rule reply)
    show "cmpCoin ?resp = coin" by simp
    show "Prices ?resp = map ?entry ?rows" by simp
    show "mset ?rows = filter_mset ?live (mset t)" by (rule bag)
    show "sorted_wrt (\<lambda>a b. CreatedAt a \<ge> CreatedAt b) ?rows" by (rule ordered)
    show "mset (Prices ?resp) = image_mset ?entry (filter_mset ?live (mset t))"
      unfolding PriceComparisonResponse.select_convs by (rule entries)
    show "sorted_wrt (\<lambda>a b. respCreatedAt a \<ge> respCreatedAt b) (Prices ?resp)"
      unfolding PriceComparisonResponse.select_convs by (rule ordered_entries)
    show "\<forall>e \<in> set (Prices ?resp). respCoin e = coin \<and> now - 24 * Hour \<le> respCreatedAt e"
      unfolding PriceComparisonResponse.select_convs by (rule inside)
    show "Count ?resp = int (length (Prices ?resp))" by simp
    show "(\<forall>r \<in> set t. \<not> ?live r) \<longrightarrow> Prices ?resp = [] \<and> Count ?resp = 0"
      unfolding PriceComparisonResponse.select_convs using none by simp
  qed
qed

theorem query_window_witness:
  "''ETH'' \<noteq> []
   \<and> GetPriceComparison (100 * Hour) (Some ethRows) (Some ethRows) ''ETH'' =
        (ComparisonJSON 200
           \<lparr>cmpCoin = ''ETH'',
            Prices = [\<lparr>respCoin = ''ETH'', respPrice = 3100, respCreatedAt = 99 * Hour\<rparr>],
            Count = 1\<rparr>,
         [CountQuery ''ETH'' (76 * Hour), FindQuery ''ETH'' (76 * Hour)])
   \<and> (\<exists>resp rows.
      GetPriceComparison (100 * Hour) (Some ethRows) (Some ethRows) ''ETH'' =
        (ComparisonJSON 200 resp,
         [CountQuery ''ETH'' (100 * Hour - 24 * Hour), FindQuery ''ETH'' (100 * Hour - 24 * Hour)])
      \<and> cmpCoin resp = ''ETH''
      \<and> Prices resp =
          map (\<lambda>r. \<lparr>respCoin = Coin r, respPrice = Price r, respCreatedAt = CreatedAt r\<rparr>) rows
      \<and> mset rows =
          filter_mset
            (\<lambda>r. Coin r = ''ETH'' \<and> 100 * Hour - 24 * Hour \<le> CreatedAt r \<and> DeletedAt r = None)
            (mset ethRows)
      \<and> sorted_wrt (\<lambda>a b. CreatedAt a \<ge> CreatedAt b) rows
      \<and> mset (Prices resp) =
          image_mset
            (\<lambda>r. \<lparr>respCoin = Coin r, respPrice = Price r, respCreatedAt = CreatedAt r\<rparr>)
            (filter_mset
               (\<lambda>r. Coin r = ''ETH'' \<and> 100 * Hour - 24 * Hour \<le> CreatedAt r \<and> DeletedAt r = None)
               (mset ethRows))
      \<and> sorted_wrt (\<lambda>a b. respCreatedAt a \<ge> respCreatedAt b) (Prices resp)
      \<and> (\<forall>e \<in> set (Prices resp).
             respCoin e = ''ETH'' \<and> 100 * Hour - 24 * Hour \<le> respCreatedAt e)
      \<and> Count resp = int (length (Prices resp))
      \<and> ((\<forall>r \<in> set ethRows.
             \<not> (Coin r = ''ETH'' \<and> 100 * Hour - 24 * Hour \<le> CreatedAt r \<and> DeletedAt r = None))
           \<longrightarrow> Prices resp = [] \<and> Count resp = 0))"
proof -
  have "''ETH'' \<noteq> []" by simp
  from query_window [OF this, of "100 * Hour" ethRows] eth_reply show ?thesis
    by (intro conjI) simp_all
qed

text \<open>
  C9. A request with an empty symbol is answered 400 with the message
  \<open>coin symbol is required\<close>, whatever the store holds or would answer, and sends no
  statement to the store.
\<close>

theorem empty_symbol_rejected:
  "GetPriceComparison now atCount atFind [] = (ErrorJSON 400 ''coin symbol is required'', [])"
  by (simp add: GetPriceComparison_def)

text \<open>
  C10. When the \<open>Count\<close> and the \<open>Find\<close> of a request see the same table, a 200 reply
  has a \<open>count\<close> equal to the number of entries of \<open>prices\<close>.
\<close>

theorem count_matches_prices:
  assumes "GetPriceComparison now (Some t) (Some t) coin = (ComparisonJSON 200 r, qs)"
  shows "Count r = int (length (Prices r))"
  using assms
  by (auto simp: GetPriceComparison_def Let_def length_find split: if_splits)

theorem count_matches_prices_witness:
  "GetPriceComparison (100 * Hour) (Some ethRows) (Some ethRows) ''ETH'' =
     (ComparisonJSON 200
        \<lparr>cmpCoin = ''ETH'',
         Prices = [\<lparr>respCoin = ''ETH'', respPrice = 3100, respCreatedAt = 99 * Hour\<rparr>],
         Count = 1\<rparr>,
      [CountQuery ''ETH'' (76 * Hour), FindQuery ''ETH'' (76 * Hour)])
   \<and> Count \<lparr>cmpCoin = ''ETH'',
         Prices = [\<lparr>respCoin = ''ETH'', respPrice = 3100 :: real, respCreatedAt = 99 * Hour\<rparr>],
         Count = 1\<rparr>
     = int (length (Prices \<lparr>cmpCoin = ''ETH'',
         Prices = [\<lparr>respCoin = ''ETH'', respPrice = 3100 :: real, respCreatedAt = 99 * Hour\<rparr>],
         Count = 1\<rparr>))"
  using count_matches_prices [OF eth_reply] eth_reply by simp

section \<open>The retention cycle\<close>

lemma dbDelete_settled:
  assumes "\<forall>r \<in> set t. \<not> (cond r \<and> DeletedAt r = None)"
  shows "dbDelete cond stamp t = (t, 0)"
  using assms by (induction t) (auto simp: dbDelete_def)

lemma dbDelete_live:
  assumes "r' \<in> set (fst (dbDelete cond stamp t))" "DeletedAt r' = None"
  shows "r' \<in> set t \<and> \<not> cond r'"
  using assms by (auto simp: dbDelete_def split: if_splits)

text \<open>
  C6. A run whose statement succeeds takes \<open>AddDate(0, 0, -2)\<close> of now as cutoff, keeps
  every row in its place, marks with the deletion time exactly the rows that are
  strictly older than the cutoff and not yet marked, leaves every other row (younger, or
  already marked) as it was, and logs the number of rows it marked.
\<close>

theorem cleanup_soft_deletes:
  assumes "cleanup addDate now stamp False t = (t', line)"
  shows "line = CleanupCompleted
                 (length (filter (\<lambda>r. CreatedAt r < addDate now 0 0 (- 2) \<and> DeletedAt r = None) t))
                 (addDate now 0 0 (- 2))
       \<and> length t' = length t
       \<and> (\<forall>i < length t.
            t' ! i = (if CreatedAt (t ! i) < addDate now 0 0 (- 2) \<and> DeletedAt (t ! i) = None
                      then (t ! i)\<lparr>DeletedAt := Some stamp\<rparr> else t ! i))"
  using assms by (auto simp: cleanup_def dbDelete_def Let_def)

theorem cleanup_soft_deletes_witness:
  "cleanup addDateUTC (49 * Hour) (49 * Hour) False
       [oldRow, oldRow\<lparr>ID := 2, CreatedAt := 2 * Hour\<rparr>, oldRow\<lparr>ID := 3, DeletedAt := Some 5\<rparr>] =
     ([oldRow\<lparr>DeletedAt := Some (49 * Hour)\<rparr>, oldRow\<lparr>ID := 2, CreatedAt := 2 * Hour\<rparr>,
       oldRow\<lparr>ID := 3, DeletedAt := Some 5\<rparr>], CleanupCompleted 1 Hour)"
  using cleanup_soft_deletes [of addDateUTC "49 * Hour" "49 * Hour"
      "[oldRow, oldRow\<lparr>ID := 2, CreatedAt := 2 * Hour\<rparr>, oldRow\<lparr>ID := 3, DeletedAt := Some 5\<rparr>]"
      "fst (cleanup addDateUTC (49 * Hour) (49 * Hour) False
       [oldRow, oldRow\<lparr>ID := 2, CreatedAt := 2 * Hour\<rparr>, oldRow\<lparr>ID := 3, DeletedAt := Some 5\<rparr>])"
      "snd (cleanup addDateUTC (49 * Hour) (49 * Hour) False
       [oldRow, oldRow\<lparr>ID := 2, CreatedAt := 2 * Hour\<rparr>, oldRow\<lparr>ID := 3, DeletedAt := Some 5\<rparr>])"]
  by (simp add: cleanup_def dbDelete_def addDateUTC_def oldRow_def Hour_def Let_def)

text \<open>
  C7, as the claim states it, fails: each run reads the clock, so a row that is not yet
  older than the first run's cutoff can be older than the second's. With a row created at
  instant 0, a run at 48 hours marks nothing, and a run one nanosecond later, with
  nothing written in between, marks the row and reports one deletion.
\<close>

theorem cleanup_twice_counterexample:
  "cleanup addDateUTC (48 * Hour + 1) (48 * Hour + 1) False
       (fst (cleanup addDateUTC (48 * Hour) (48 * Hour) False [oldRow])) =
     ([oldRow\<lparr>DeletedAt := Some (48 * Hour + 1)\<rparr>], CleanupCompleted 1 1)"
  by (simp add: cleanup_def dbDelete_def addDateUTC_def oldRow_def Hour_def Let_def)

text \<open>
  C7, amended. Let a second run follow a first one with nothing written in between. If
  no unmarked row is older than the second cutoff without being older than the first
  (as when both runs compute the same cutoff), the second run leaves the table as the
  first one left it and reports zero deletions.
\<close>

theorem cleanup_second_run:
  assumes "\<forall>r \<in> set t. DeletedAt r = None \<and> CreatedAt r < addDate now2 0 0 (- 2)
             \<longrightarrow> CreatedAt r < addDate now1 0 0 (- 2)"
  shows "cleanup addDate now2 stamp2 False (fst (cleanup addDate now1 stamp1 False t)) =
           (fst (cleanup addDate now1 stamp1 False t), CleanupCompleted 0 (addDate now2 0 0 (- 2)))"
proof -
  let ?t1 = "fst (dbDelete (\<lambda>r. CreatedAt r < addDate now1 0 0 (- 2)) stamp1 t)"
  have "\<forall>r \<in> set ?t1. \<not> (CreatedAt r < addDate now2 0 0 (- 2) \<and> DeletedAt r = None)"
  proof
    fix r assume r: "r \<in> set ?t1"
    show "\<not> (CreatedAt r < addDate now2 0 0 (- 2) \<and> DeletedAt r = None)"
    proof
      assume a: "CreatedAt r < addDate now2 0 0 (- 2) \<and> DeletedAt r = None"
      with r dbDelete_live [of r "\<lambda>r. CreatedAt r < addDate now1 0 0 (- 2)" stamp1 t]
      have "r \<in> set t" "\<not> CreatedAt r < addDate now1 0 0 (- 2)" by auto
      with a assms show False by blast
    qed
  qed
  then have "dbDelete (\<lambda>r. CreatedAt r < addDate now2 0 0 (- 2)) stamp2 ?t1 = (?t1, 0)"
    by (rule dbDelete_settled)
  then show ?thesis by (simp add: cleanup_def Let_def)
qed

theorem cleanup_second_run_witness:
  "cleanup addDateUTC (49 * Hour) (49 * Hour) False [oldRow] =
       ([oldRow\<lparr>DeletedAt := Some (49 * Hour)\<rparr>], CleanupCompleted 1 Hour)
   \<and> cleanup addDateUTC (49 * Hour) (50 * Hour) False [oldRow\<lparr>DeletedAt := Some (49 * Hour)\<rparr>] =
       ([oldRow\<lparr>DeletedAt := Some (49 * Hour)\<rparr>], CleanupCompleted 0 Hour)"
  using cleanup_second_run [of "[oldRow]" addDateUTC "49 * Hour" "49 * Hour" "50 * Hour" "49 * Hour"]
  by (simp add: cleanup_def dbDelete_def addDateUTC_def oldRow_def Hour_def Let_def)

section \<open>The fetch cycle\<close>

lemma fetchOne_table: "fst (fetchOne rt x coin t) = t @ insertedRows rt x coin"
  by (simp add: fetchOne_def insertedRows_def dbCreate_def split: sum.splits createOutcome.splits)

lemma fetchOne_line: "snd (fetchOne rt x coin t) = snd (fetchOne rt x coin [])"
  by (simp add: fetchOne_def split: sum.splits createOutcome.splits)

lemma fetchOne_lineCoin: "lineCoin (snd (fetchOne rt x coin t)) = coin"
  by (simp add: fetchOne_def lineCoin_def split: sum.splits createOutcome.splits)

lemma upt_length_Cons: "[0..<length (x # xs)] = 0 # map Suc [0..<length xs]"
  by (simp add: upt_conv_Cons map_Suc_upt del: upt_Suc)

lemma fetchPrices_coins: "map lineCoin (snd (fetchPrices rt world i coins t)) = coins"
proof (induction coins arbitrary: i t)
  case Nil
  show ?case by simp
next
  case (Cons coin coins)
  have "lineCoin (snd (fetchOne rt (world i) coin t)) = coin" by (rule fetchOne_lineCoin)
  with Cons.IH [of "Suc i" "fst (fetchOne rt (world i) coin t)"] show ?case
    by (simp add: case_prod_beta Let_def)
qed

lemma fetchPrices_lines:
  "snd (fetchPrices rt world i coins t) =
     map (\<lambda>k. snd (fetchOne rt (world (i + k)) (coins ! k) [])) [0..<length coins]"
proof (induction coins arbitrary: i t)
  case Nil
  show ?case by simp
next
  case (Cons coin coins)
  show ?case
    unfolding upt_length_Cons
    using Cons.IH [of "Suc i" "fst (fetchOne rt (world i) coin t)"]
      fetchOne_line [of rt "world i" coin t]
    by (simp add: case_prod_beta Let_def comp_def)
qed

lemma fetchPrices_table:
  "fst (fetchPrices rt world i coins t) =
     t @ concat (map (\<lambda>k. insertedRows rt (world (i + k)) (coins ! k)) [0..<length coins])"
proof (induction coins arbitrary: i t)
  case Nil
  show ?case by simp
next
  case (Cons coin coins)
  show ?case
    unfolding upt_length_Cons
    using Cons.IH [of "Suc i" "fst (fetchOne rt (world i) coin t)"]
    by (simp add: case_prod_beta Let_def fetchOne_table comp_def)
qed

text \<open>
  A cycle over the five symbols in which the first insert fails, the second request
  fails, and the payload holds \<open>BTC\<close> and \<open>SOL\<close> only.
\<close>

lemma fetch_cycle_example:
  "fetchPrices plainRuntime
     (\<lambda>i. \<lparr>answered = (if i = 1 then DoFailed
                        else respond (flat [(''BTC'', ''65000.12345678''), (''SOL'', ''150.5'')])),
           stored = (if i = 0 then CreateFailed else Created (10 + i) (1000 + int i))\<rparr>)
     0 NewPriceFetcherCoins []
   = ([\<lparr>ID = 12, Coin = ''SOL'', Price = 150.5, CreatedAt = 1002, UpdatedAt = 1002,
        DeletedAt = None\<rparr>],
      [ErrorSaving ''BTC'', ErrorFetching ''ETH'' RequestFailed, Saved ''SOL'' 150.5,
       ErrorFetching ''ARB'' (CoinNotFound ''ARB'' [''BTC'', ''SOL'']),
       ErrorFetching ''AVAX'' (CoinNotFound ''AVAX'' [''BTC'', ''SOL''])])"
  by code_simp

text \<open>
  C8. A cycle over any list of symbols, whatever the world answers: it logs one line per
  symbol, in the order of the list, so every symbol is attempted; the line of a symbol
  is the one that symbol would get alone, so a failure touches no other symbol; and the
  table afterwards is the table before followed, symbol by symbol, by \<open>insertedRows\<close>:
  one row with the fetched price and the time of the insert when both \<open>GetPrice\<close> and the
  insert succeed, and no row otherwise.
\<close>

theorem fetch_cycle:
  "map lineCoin (snd (fetchPrices rt world i coins t)) = coins
   \<and> snd (fetchPrices rt world i coins t) =
       map (\<lambda>k. snd (fetchOne rt (world (i + k)) (coins ! k) [])) [0..<length coins]
   \<and> fst (fetchPrices rt world i coins t) =
       t @ concat (map (\<lambda>k. insertedRows rt (world (i + k)) (coins ! k)) [0..<length coins])"
  using fetchPrices_coins fetchPrices_lines fetchPrices_table by blast

end
